theory Spec2Isabelle
  imports Complex_Main
begin

section \<open>Conversion of polygon annotations to RLE masks (bdd100k/label/to\_rle.py)\<close>

text \<open>
  The module drives four kinds of collaborators that live outside of it: the scalabel
  library (\<open>load\<close>, \<open>save\<close>, \<open>group_and_sort\<close>, \<open>frame_to_rles\<close>, \<open>rle_to_box2d\<close>
  and the types \<open>Frame\<close>, \<open>Label\<close>, \<open>Config\<close>, \<open>ImageSize\<close>, \<open>Poly2D\<close>), the sibling
  modules \<open>common.utils\<close>, \<open>common.typing\<close> and \<open>to_scalabel\<close>, the operating system
  (\<open>os.makedirs\<close>, \<open>os.path.join\<close>) and the process pool.  The types of the library are
  opaque here: \<open>'s\<close> is \<open>ImageSize\<close>, \<open>'p\<close> is \<open>Poly2D\<close>, \<open>'m\<close> is the RLE mask,
  \<open>'b\<close> is \<open>Box2D\<close>.  Records carry the fields this module reads or writes; every other
  field of the Python objects lives in the extension part of the record scheme, so a
  statement about a record scheme is a statement about all fields.
\<close>

subsection \<open>Data\<close>

text \<open>
  A confidence score is a Python float.  The module only compares scores, so a
  score is represented by the real number it denotes; a NaN score has no representation.
\<close>

record ('p, 'm, 'b) label =
  score :: "real option"
  poly2d :: "'p list option"
  rle :: "'m option"
  box2d :: "'b option"

record ('p, 'm, 'b, 'lz) frame =
  videoName :: "string option"
  labels :: "('p, 'm, 'b, 'lz) label_scheme list option"

record 's config =
  imageSize :: "'s option"

record ('s, 'cz) bdd100k_config =
  scalabel :: "('s, 'cz) config_scheme"

record ('s, 'p, 'm, 'b, 'lz, 'fz, 'cz) dataset =
  frames :: "('p, 'm, 'b, 'lz, 'fz) frame_scheme list"
  config :: "('s, 'cz) config_scheme option"

text \<open>The choices of the \<open>--mode\<close> argument, and the strings the command line uses for them.\<close>

datatype mode = SemSeg | Drivable | LaneMark | PanSeg | InsSeg | SegTrack

fun mode_name :: "mode \<Rightarrow> string" where
  "mode_name SemSeg = ''sem_seg''"
| "mode_name Drivable = ''drivable''"
| "mode_name LaneMark = ''lane_mark''"
| "mode_name PanSeg = ''pan_seg''"
| "mode_name InsSeg = ''ins_seg''"
| "mode_name SegTrack = ''seg_track''"

text \<open>The namespace returned by \<open>parse_args\<close>.\<close>

record args =
  arg_input :: string
  arg_output :: string
  arg_mode :: mode
  arg_nproc :: int
  arg_config :: "string option"

subsection \<open>Errors and effects\<close>

text \<open>
  \<open>AssertionError\<close> carries the message of the failed \<open>assert\<close>; \<open>IndexError\<close> is raised
  by \<open>video_anns[0]\<close> on an empty group; \<open>ValueError\<close> by \<open>Pool(nproc)\<close> when
  \<open>nproc < 1\<close>; \<open>KeyError\<close> by a lookup in \<open>convert_funcs\<close> that finds no entry;
  \<open>Raised\<close> is any exception coming out of a collaborator.
\<close>

datatype error = AssertionError string | IndexError | ValueError | KeyError | Raised string

text \<open>
  What a run does to the outside world is recorded as the chronological list of its
  input/output actions and of its calls to the schema translation and to the rasterizer.
  A call of the schema translation is recorded with the frames it is given, a call of the
  rasterizer with its arguments.  \<open>save\<close> and \<open>os.makedirs\<close> are taken to succeed.
\<close>

datatype ('s, 'p, 'm, 'b, 'lz, 'fz) event =
    Load string int
  | LoadConfig string
  | SchemaTranslate "('p, 'm, 'b, 'lz, 'fz) frame_scheme list"
  | MakeDirs string
  | Rasterize 's "'p list list"
  | Save string "('p, 'm, 'b, 'lz, 'fz) frame_scheme list"

fun is_Save :: "('s, 'p, 'm, 'b, 'lz, 'fz) event \<Rightarrow> bool" where
  "is_Save (Save p fs) = True"
| "is_Save ev = False"

fun is_Rasterize :: "('s, 'p, 'm, 'b, 'lz, 'fz) event \<Rightarrow> bool" where
  "is_Rasterize (Rasterize s ps) = True"
| "is_Rasterize ev = False"

fun is_SchemaTranslate :: "('s, 'p, 'm, 'b, 'lz, 'fz) event \<Rightarrow> bool" where
  "is_SchemaTranslate (SchemaTranslate fs) = True"
| "is_SchemaTranslate ev = False"

subsection \<open>The collaborators\<close>

record ('s, 'p, 'm, 'b, 'lz, 'fz, 'cz, 'bz) env =
  load :: "string \<Rightarrow> int \<Rightarrow> error + ('s, 'p, 'm, 'b, 'lz, 'fz, 'cz) dataset"
  load_bdd100k_config :: "string \<Rightarrow> error + ('s, 'cz, 'bz) bdd100k_config_scheme"
  BDD100KConfig :: "('s, 'cz) config_scheme \<Rightarrow> error + ('s, 'cz, 'bz) bdd100k_config_scheme"
  bdd100k_to_scalabel ::
    "('p, 'm, 'b, 'lz, 'fz) frame_scheme list \<Rightarrow> ('s, 'cz, 'bz) bdd100k_config_scheme
       \<Rightarrow> error + ('p, 'm, 'b, 'lz, 'fz) frame_scheme list"
  group_and_sort ::
    "('p, 'm, 'b, 'lz, 'fz) frame_scheme list
       \<Rightarrow> error + ('p, 'm, 'b, 'lz, 'fz) frame_scheme list list"
  frame_to_rles :: "'s \<Rightarrow> 'p list list \<Rightarrow> error + 'm list"
  rle_to_box2d :: "'m \<Rightarrow> 'b"

subsection \<open>\<open>frames_to_rle\<close>\<close>

text \<open>
  Labels are objects: \<open>sorted\<close> builds a new list of references to the same labels, and
  the assignments of the last loop reach the labels of the frame through these references.
  A reference is the position of the label in \<open>image_anns.labels\<close> (a frame read from
  storage holds each label object once).
\<close>

definition has_score :: "('p, 'm, 'b, 'lz) label_scheme list \<Rightarrow> bool" where
  "has_score ls = list_all (\<lambda>l. score l \<noteq> None) ls"

text \<open>\<open>labels_\<close> after lines 77 to 81; \<open>sorted\<close> is a stable sort, as \<open>sort_key\<close> is.\<close>

definition render_order :: "('p, 'm, 'b, 'lz) label_scheme list \<Rightarrow> nat list" where
  "render_order ls =
     (if has_score ls then sort_key (\<lambda>i. the (score (ls ! i))) [0..<length ls]
      else [0..<length ls])"

text \<open>\<open>poly2ds\<close> after the loop of lines 82 to 85.\<close>

definition collect_poly2ds :: "('p, 'm, 'b, 'lz) label_scheme list \<Rightarrow> nat list \<Rightarrow> 'p list list" where
  "collect_poly2ds ls order = List.map_filter (\<lambda>i. poly2d (ls ! i)) order"

text \<open>The loop of lines 87 to 89 over \<open>zip(labels_, rles)\<close>.\<close>

fun assign_rles ::
  "('m \<Rightarrow> 'b) \<Rightarrow> (nat \<times> 'm) list \<Rightarrow> ('p, 'm, 'b, 'lz) label_scheme list
     \<Rightarrow> ('p, 'm, 'b, 'lz) label_scheme list" where
  "assign_rles box [] ls = ls"
| "assign_rles box ((i, r) # irs) ls =
     assign_rles box irs (ls[i := (ls ! i)\<lparr>rle := Some r, box2d := Some (box r)\<rparr>])"

text \<open>The body of the loop over the frames (lines 72 to 89), for one frame.\<close>

definition frames_to_rle_body ::
  "('s, 'p, 'm, 'b, 'lz, 'fz, 'cz, 'bz, 'ez) env_scheme \<Rightarrow> 's
     \<Rightarrow> ('p, 'm, 'b, 'lz, 'fz) frame_scheme
     \<Rightarrow> ('s, 'p, 'm, 'b, 'lz, 'fz) event list \<times> (error + ('p, 'm, 'b, 'lz, 'fz) frame_scheme)" where
  "frames_to_rle_body ext shape image_anns =
     (case labels image_anns of
        None \<Rightarrow> ([], Inr image_anns)
      | Some ls \<Rightarrow>
          if length ls = 0 then ([], Inr image_anns)
          else
            let labels' = render_order ls;
                poly2ds = collect_poly2ds ls labels'
            in (case frame_to_rles ext shape poly2ds of
                  Inl e \<Rightarrow> ([Rasterize shape poly2ds], Inl e)
                | Inr rles \<Rightarrow>
                    ([Rasterize shape poly2ds],
                     Inr (image_anns\<lparr>labels :=
                            Some (assign_rles (rle_to_box2d ext) (zip labels' rles) ls)\<rparr>))))"

text \<open>The loop over the frames: an exception of the rasterizer ends it.\<close>

fun frames_to_rle_loop ::
  "('s, 'p, 'm, 'b, 'lz, 'fz, 'cz, 'bz, 'ez) env_scheme \<Rightarrow> 's
     \<Rightarrow> ('p, 'm, 'b, 'lz, 'fz) frame_scheme list
     \<Rightarrow> ('s, 'p, 'm, 'b, 'lz, 'fz) event list
          \<times> (error + ('p, 'm, 'b, 'lz, 'fz) frame_scheme list)" where
  "frames_to_rle_loop ext shape [] = ([], Inr [])"
| "frames_to_rle_loop ext shape (f # fs) =
     (case frames_to_rle_body ext shape f of
        (t, Inl e) \<Rightarrow> (t, Inl e)
      | (t, Inr f') \<Rightarrow>
          (case frames_to_rle_loop ext shape fs of
             (ts, Inl e) \<Rightarrow> (t @ ts, Inl e)
           | (ts, Inr fs') \<Rightarrow> (t @ ts, Inr (f' # fs'))))"

definition frames_to_rle ::
  "('s, 'p, 'm, 'b, 'lz, 'fz, 'cz, 'bz, 'ez) env_scheme \<Rightarrow> string \<Rightarrow> 's
     \<Rightarrow> ('p, 'm, 'b, 'lz, 'fz) frame_scheme list
     \<Rightarrow> ('s, 'p, 'm, 'b, 'lz, 'fz) event list \<times> (error + unit)" where
  "frames_to_rle ext out_path shape fs =
     (case frames_to_rle_loop ext shape fs of
        (t, Inl e) \<Rightarrow> (t, Inl e)
      | (t, Inr fs') \<Rightarrow> (t @ [Save out_path fs'], Inr ()))"

subsection \<open>\<open>frames_to_rles\<close>: the process pool\<close>

text \<open>
  The units of a pool are independent: each runs \<open>frames_to_rle\<close> on its own triple in a
  process of its own.  The model runs them one after the other in the order of submission,
  which is one of the schedules of the pool, and reports the first failure in that order.
  \<open>Pool(nproc)\<close> raises \<open>ValueError\<close> when \<open>nproc < 1\<close>.
\<close>

fun starmap ::
  "('s, 'p, 'm, 'b, 'lz, 'fz, 'cz, 'bz, 'ez) env_scheme
     \<Rightarrow> (string \<times> 's \<times> ('p, 'm, 'b, 'lz, 'fz) frame_scheme list) list
     \<Rightarrow> ('s, 'p, 'm, 'b, 'lz, 'fz) event list \<times> (error + unit)" where
  "starmap ext [] = ([], Inr ())"
| "starmap ext ((out_path, shape, fs) # units) =
     (case frames_to_rle ext out_path shape fs of
        (t, r) \<Rightarrow>
          (case starmap ext units of
             (ts, rs) \<Rightarrow> (t @ ts, (case r of Inl e \<Rightarrow> Inl e | Inr u \<Rightarrow> rs))))"

definition frames_to_rles ::
  "('s, 'p, 'm, 'b, 'lz, 'fz, 'cz, 'bz, 'ez) env_scheme \<Rightarrow> int \<Rightarrow> string list \<Rightarrow> 's list
     \<Rightarrow> ('p, 'm, 'b, 'lz, 'fz) frame_scheme list list
     \<Rightarrow> ('s, 'p, 'm, 'b, 'lz, 'fz) event list \<times> (error + unit)" where
  "frames_to_rles ext nproc out_paths shapes frames_list =
     (if nproc < 1 then ([], Inl ValueError)
      else starmap ext (zip out_paths (zip shapes frames_list)))"

subsection \<open>\<open>seg_to_rles\<close> and \<open>segtrack_to_rles\<close>\<close>

definition seg_to_rles ::
  "('s, 'p, 'm, 'b, 'lz, 'fz, 'cz, 'bz, 'ez) env_scheme
     \<Rightarrow> ('p, 'm, 'b, 'lz, 'fz) frame_scheme list \<Rightarrow> string \<Rightarrow> ('s, 'cz) config_scheme \<Rightarrow> int
     \<Rightarrow> ('s, 'p, 'm, 'b, 'lz, 'fz) event list \<times> (error + unit)" where
  "seg_to_rles ext fs out_path cfg nproc =
     (case imageSize cfg of
        None \<Rightarrow> ([], Inl (AssertionError ''Seg conversion requires imageSize in config''))
      | Some img_shape \<Rightarrow> frames_to_rle ext out_path img_shape fs)"

text \<open>\<open>os.path.join\<close> of two components, as \<open>posixpath\<close> computes it.\<close>

definition path_join :: "string \<Rightarrow> string \<Rightarrow> string" where
  "path_join a b =
     (if b \<noteq> [] \<and> hd b = CHR ''/'' then b
      else if a = [] \<or> last a = CHR ''/'' then a @ b
      else a @ ''/'' @ b)"

text \<open>The loop of lines 132 to 138, which fills \<open>out_paths\<close> (and \<open>shapes\<close>).\<close>

fun prepare_paths ::
  "string \<Rightarrow> ('p, 'm, 'b, 'lz, 'fz) frame_scheme list list \<Rightarrow> error + string list" where
  "prepare_paths out_base [] = Inr []"
| "prepare_paths out_base (video_anns # rest) =
     (case video_anns of
        [] \<Rightarrow> Inl IndexError
      | f # fs \<Rightarrow>
          (case videoName f of
             None \<Rightarrow> Inl (AssertionError ''SegTrack conversion requires videoName in annotations'')
           | Some video_name \<Rightarrow>
               (case prepare_paths out_base rest of
                  Inl e \<Rightarrow> Inl e
                | Inr out_paths \<Rightarrow> Inr (path_join out_base (video_name @ ''.json'') # out_paths))))"

definition segtrack_to_rles ::
  "('s, 'p, 'm, 'b, 'lz, 'fz, 'cz, 'bz, 'ez) env_scheme
     \<Rightarrow> ('p, 'm, 'b, 'lz, 'fz) frame_scheme list \<Rightarrow> string \<Rightarrow> ('s, 'cz) config_scheme \<Rightarrow> int
     \<Rightarrow> ('s, 'p, 'm, 'b, 'lz, 'fz) event list \<times> (error + unit)" where
  "segtrack_to_rles ext fs out_base cfg nproc =
     (case group_and_sort ext fs of
        Inl e \<Rightarrow> ([], Inl e)
      | Inr frames_list \<Rightarrow>
          (case imageSize cfg of
             None \<Rightarrow> ([MakeDirs out_base],
                      Inl (AssertionError ''Conversion requires imageSize in config.''))
           | Some img_shape \<Rightarrow>
               (case prepare_paths out_base frames_list of
                  Inl e \<Rightarrow> ([MakeDirs out_base], Inl e)
                | Inr out_paths \<Rightarrow>
                    (case frames_to_rles ext nproc out_paths
                            (map (\<lambda>_. img_shape) frames_list) frames_list of
                       (t, r) \<Rightarrow> (MakeDirs out_base # t, r)))))"

subsection \<open>\<open>main\<close>\<close>

text \<open>The dictionary \<open>convert_funcs\<close>: it has no entry for \<open>lane_mark\<close>.\<close>

fun convert_funcs ::
  "mode \<Rightarrow>
     (('s, 'p, 'm, 'b, 'lz, 'fz, 'cz, 'bz, 'ez) env_scheme
        \<Rightarrow> ('p, 'm, 'b, 'lz, 'fz) frame_scheme list \<Rightarrow> string \<Rightarrow> ('s, 'cz) config_scheme \<Rightarrow> int
        \<Rightarrow> ('s, 'p, 'm, 'b, 'lz, 'fz) event list \<times> (error + unit)) option" where
  "convert_funcs SemSeg = Some seg_to_rles"
| "convert_funcs Drivable = Some seg_to_rles"
| "convert_funcs LaneMark = None"
| "convert_funcs PanSeg = Some seg_to_rles"
| "convert_funcs InsSeg = Some seg_to_rles"
| "convert_funcs SegTrack = Some segtrack_to_rles"

text \<open>Lines 167 to 172: where the configuration of the run comes from.\<close>

definition resolve_config ::
  "('s, 'p, 'm, 'b, 'lz, 'fz, 'cz, 'bz, 'ez) env_scheme \<Rightarrow> args
     \<Rightarrow> ('s, 'p, 'm, 'b, 'lz, 'fz, 'cz) dataset
     \<Rightarrow> ('s, 'p, 'm, 'b, 'lz, 'fz) event list \<times> (error + ('s, 'cz, 'bz) bdd100k_config_scheme)" where
  "resolve_config ext a ds =
     (case arg_config a of
        Some path \<Rightarrow> ([LoadConfig path], load_bdd100k_config ext path)
      | None \<Rightarrow>
          (case config ds of
             Some c \<Rightarrow> ([], BDD100KConfig ext c)
           | None \<Rightarrow> ([LoadConfig (mode_name (arg_mode a))],
                       load_bdd100k_config ext (mode_name (arg_mode a)))))"

text \<open>Lines 174 to 177: the frames handed to the conversion function.\<close>

definition translate_frames ::
  "('s, 'p, 'm, 'b, 'lz, 'fz, 'cz, 'bz, 'ez) env_scheme \<Rightarrow> mode
     \<Rightarrow> ('s, 'p, 'm, 'b, 'lz, 'fz, 'cz) dataset \<Rightarrow> ('s, 'cz, 'bz) bdd100k_config_scheme
     \<Rightarrow> ('s, 'p, 'm, 'b, 'lz, 'fz) event list
          \<times> (error + ('p, 'm, 'b, 'lz, 'fz) frame_scheme list)" where
  "translate_frames ext m ds bdd100k_cfg =
     (if m \<in> set [InsSeg, SegTrack]
      then ([SchemaTranslate (frames ds)], bdd100k_to_scalabel ext (frames ds) bdd100k_cfg)
      else ([], Inr (frames ds)))"

definition main ::
  "('s, 'p, 'm, 'b, 'lz, 'fz, 'cz, 'bz, 'ez) env_scheme \<Rightarrow> args
     \<Rightarrow> ('s, 'p, 'm, 'b, 'lz, 'fz) event list \<times> (error + unit)" where
  "main ext a =
     (if arg_mode a \<notin> set [SemSeg, Drivable, PanSeg, InsSeg, SegTrack]
      then ([], Inl (AssertionError []))
      else
        (case load ext (arg_input a) (arg_nproc a) of
           Inl e \<Rightarrow> ([Load (arg_input a) (arg_nproc a)], Inl e)
         | Inr ds \<Rightarrow>
             (case resolve_config ext a ds of
                (t1, Inl e) \<Rightarrow> (Load (arg_input a) (arg_nproc a) # t1, Inl e)
              | (t1, Inr bdd100k_cfg) \<Rightarrow>
                  (case translate_frames ext (arg_mode a) ds bdd100k_cfg of
                     (t2, Inl e) \<Rightarrow> (Load (arg_input a) (arg_nproc a) # t1 @ t2, Inl e)
                   | (t2, Inr fs) \<Rightarrow>
                       (case convert_funcs (arg_mode a) of
                          None \<Rightarrow> (Load (arg_input a) (arg_nproc a) # t1 @ t2, Inl KeyError)
                        | Some convert \<Rightarrow>
                            (case convert ext fs (arg_output a) (scalabel bdd100k_cfg) (arg_nproc a) of
                               (t3, r) \<Rightarrow>
                                 (Load (arg_input a) (arg_nproc a) # t1 @ t2 @ t3, r)))))))"

subsection \<open>What rasterization may change\<close>

text \<open>
  \<open>same_but_masks f f'\<close>: the frame \<open>f'\<close> is the frame \<open>f\<close> up to the \<open>rle\<close> and \<open>box2d\<close>
  fields of its labels.  Every other field of the frame and of each label is the same, and the
  labels stand in the same order.
\<close>

definition same_but_masks ::
  "('p, 'm, 'b, 'lz, 'fz) frame_scheme \<Rightarrow> ('p, 'm, 'b, 'lz, 'fz) frame_scheme \<Rightarrow> bool" where
  "same_but_masks f f' \<longleftrightarrow>
     f'\<lparr>labels := labels f\<rparr> = f \<and>
     map_option (map (\<lambda>l. l\<lparr>rle := None, box2d := None\<rparr>)) (labels f') =
     map_option (map (\<lambda>l. l\<lparr>rle := None, box2d := None\<rparr>)) (labels f)"

subsection \<open>Instances of the collaborators, for running the model\<close>

text \<open>
  A polygon is a number, an image size a pair of numbers.  The rasterizer of the examples
  returns one mask for each polygon set (the set itself stands for its mask), the box of a
  mask is the number of its polygons, the schema translation drops the frames that have no
  label list, and the grouper
  collects the frames of equal \<open>videoName\<close>, groups in the order of their first frame and
  frames in the order of the input.
\<close>

fun group_by_videoName ::
  "('p, 'm, 'b, 'lz, 'fz) frame_scheme list \<Rightarrow> ('p, 'm, 'b, 'lz, 'fz) frame_scheme list list" where
  "group_by_videoName [] = []"
| "group_by_videoName (f # fs) =
     (f # filter (\<lambda>g. videoName g = videoName f) fs)
       # group_by_videoName (filter (\<lambda>g. videoName g \<noteq> videoName f) fs)"

definition example_label :: "real option \<Rightarrow> nat list option \<Rightarrow> (nat, nat list, nat) label" where
  "example_label s p = \<lparr>score = s, poly2d = p, rle = None, box2d = None\<rparr>"

definition example_frames :: "(nat, nat list, nat, unit) frame list" where
  "example_frames =
     [\<lparr>videoName = Some ''v1'',
       labels = Some [example_label (Some 0.9) (Some [1]), example_label (Some 0.2) (Some [2])]\<rparr>,
      \<lparr>videoName = Some ''v2'',
       labels = Some [example_label None None, example_label (Some 0.5) (Some [3])]\<rparr>,
      \<lparr>videoName = Some ''v1'', labels = None\<rparr>]"

definition example_env ::
  "(nat \<times> nat, nat, nat list, nat, unit, unit, unit, unit) env" where
  "example_env =
     \<lparr>load = (\<lambda>path nproc. Inr \<lparr>frames = example_frames, config = None\<rparr>),
      load_bdd100k_config = (\<lambda>name. Inr \<lparr>scalabel = \<lparr>imageSize = Some (1280, 720)\<rparr>\<rparr>),
      BDD100KConfig = (\<lambda>c. Inr \<lparr>scalabel = c\<rparr>),
      bdd100k_to_scalabel = (\<lambda>fs c. Inr (filter (\<lambda>f. labels f \<noteq> None) fs)),
      group_and_sort = (\<lambda>fs. Inr (group_by_videoName fs)),
      frame_to_rles = (\<lambda>shape ps. Inr ps),
      rle_to_box2d = length\<rparr>"

section \<open>Properties\<close>

lemmas run_defs = frames_to_rle_body_def render_order_def has_score_def collect_poly2ds_def
  List.map_filter_simps Let_def frames_to_rle_def frames_to_rles_def seg_to_rles_def
  segtrack_to_rles_def path_join_def

lemmas example_defs = example_env_def example_frames_def example_label_def

subsection \<open>The order of rendering\<close>

lemma insort_key_map: "insort_key k (g x) (map g ys) = map g (insort_key (\<lambda>y. k (g y)) x ys)"
  by (induction ys) auto

lemma sort_key_map: "sort_key k (map g xs) = map g (sort_key (\<lambda>y. k (g y)) xs)"
  by (induction xs) (auto simp: insort_key_map)

lemma render_order_labels:
  "map (\<lambda>i. ls ! i) (render_order ls) = (if has_score ls then sort_key (\<lambda>l. the (score l)) ls else ls)"
  using sort_key_map [of "\<lambda>l. the (score l)" "\<lambda>i. ls ! i" "[0..<length ls]"]
  by (simp add: render_order_def map_nth)

lemma map_filter_map: "List.map_filter f (map g xs) = List.map_filter (\<lambda>x. f (g x)) xs"
  by (simp add: List.map_filter_def filter_map comp_def)

lemma collect_poly2ds_labels:
  "collect_poly2ds ls order = List.map_filter poly2d (map (\<lambda>i. ls ! i) order)"
  by (simp add: collect_poly2ds_def map_filter_map)

lemma submitted_poly2ds:
  "collect_poly2ds ls (render_order ls) =
     map (\<lambda>l. the (poly2d l)) (filter (\<lambda>l. poly2d l \<noteq> None)
       (if has_score ls then sort_key (\<lambda>l. the (score l)) ls else ls))"
  by (simp add: collect_poly2ds_labels render_order_labels List.map_filter_def comp_def)

lemma body_trace:
  "labels f = Some ls \<Longrightarrow> ls \<noteq> [] \<Longrightarrow>
     fst (frames_to_rle_body ext shape f) = [Rasterize shape (collect_poly2ds ls (render_order ls))]"
  by (simp add: frames_to_rle_body_def Let_def split: sum.splits)

text \<open>
  Claim C2.  For a frame with a non-empty label list, the polygon sets handed to the rasterizer
  are those of the shape-bearing labels.  If every label carries a score they are taken in
  ascending order of score (the scores of the submitted labels form a sorted list, and labels of
  equal score keep their relative order, as the sort is stable); if some label lacks a
  score they are taken in the original order of the labels of the frame.
\<close>

theorem submission_order:
  assumes "labels f = Some ls" and "ls \<noteq> []"
  shows "((\<forall>l \<in> set ls. score l \<noteq> None) \<longrightarrow>
            fst (frames_to_rle_body ext shape f) =
              [Rasterize shape (map (\<lambda>l. the (poly2d l))
                 (filter (\<lambda>l. poly2d l \<noteq> None) (sort_key (\<lambda>l. the (score l)) ls)))] \<and>
            sorted (map (\<lambda>l. the (score l))
                 (filter (\<lambda>l. poly2d l \<noteq> None) (sort_key (\<lambda>l. the (score l)) ls)))) \<and>
         (\<not> (\<forall>l \<in> set ls. score l \<noteq> None) \<longrightarrow>
            fst (frames_to_rle_body ext shape f) =
              [Rasterize shape (map (\<lambda>l. the (poly2d l)) (filter (\<lambda>l. poly2d l \<noteq> None) ls))])"
proof -
  have tr: "fst (frames_to_rle_body ext shape f) = [Rasterize shape (collect_poly2ds ls (render_order ls))]"
    using assms by (rule body_trace)
  have hs: "has_score ls \<longleftrightarrow> (\<forall>l \<in> set ls. score l \<noteq> None)"
    by (simp add: has_score_def list_all_iff)
  have srt: "sorted (map (\<lambda>l. the (score l))
                 (filter (\<lambda>l. poly2d l \<noteq> None) (sort_key (\<lambda>l. the (score l)) ls)))"
    by (rule sorted_filter) (rule sorted_sort_key)
  show ?thesis
  proof (cases "has_score ls")
    case True
    with tr srt show ?thesis unfolding hs [symmetric] by (simp add: submitted_poly2ds)
  next
    case False
    with tr show ?thesis unfolding hs [symmetric] by (simp add: submitted_poly2ds)
  qed
qed

theorem submission_order_witness:
  "labels (example_frames ! 0) =
     Some [example_label (Some 0.9) (Some [1]), example_label (Some 0.2) (Some [2])] \<and>
   fst (frames_to_rle_body example_env (1280, 720) (example_frames ! 0)) =
     [Rasterize (1280, 720) [[2], [1]]] \<and>
   labels (example_frames ! 1) =
     Some [example_label None None, example_label (Some 0.5) (Some [3])] \<and>
   fst (frames_to_rle_body example_env (1280, 720) (example_frames ! 1)) =
     [Rasterize (1280, 720) [[3]]]"
proof -
  let ?f0 = "example_frames ! 0"
  let ?ls0 = "[example_label (Some 0.9) (Some [1]), example_label (Some 0.2) (Some [2])]"
  let ?f1 = "example_frames ! 1"
  let ?ls1 = "[example_label None None, example_label (Some 0.5) (Some [3])]"
  have l0: "labels ?f0 = Some ?ls0" and l1: "labels ?f1 = Some ?ls1"
    by (simp_all add: example_frames_def)
  have n0: "?ls0 \<noteq> []" and n1: "?ls1 \<noteq> []"
    by simp_all
  have s0: "\<forall>l \<in> set ?ls0. score l \<noteq> None"
    by (simp add: example_label_def del: not_None_eq)
  have s1: "\<not> (\<forall>l \<in> set ?ls1. score l \<noteq> None)"
    by (simp add: example_label_def)
  from submission_order [OF l0 n0, of example_env "(1280, 720)"] s0
  have "fst (frames_to_rle_body example_env (1280, 720) ?f0) =
      [Rasterize (1280, 720) (map (\<lambda>l. the (poly2d l))
         (filter (\<lambda>l. poly2d l \<noteq> None) (sort_key (\<lambda>l. the (score l)) ?ls0)))]"
    by blast
  then have r0: "fst (frames_to_rle_body example_env (1280, 720) ?f0) = [Rasterize (1280, 720) [[2], [1]]]"
    by (simp add: example_label_def)
  from submission_order [OF l1 n1, of example_env "(1280, 720)"] s1
  have "fst (frames_to_rle_body example_env (1280, 720) ?f1) =
      [Rasterize (1280, 720) (map (\<lambda>l. the (poly2d l)) (filter (\<lambda>l. poly2d l \<noteq> None) ?ls1))]"
    by blast
  then have r1: "fst (frames_to_rle_body example_env (1280, 720) ?f1) = [Rasterize (1280, 720) [[3]]]"
    by (simp add: example_label_def)
  from l0 r0 l1 r1 show ?thesis by blast
qed

subsection \<open>Which label receives which mask\<close>

text \<open>
  Claim C1.  The claim says that the \<open>i\<close>-th mask goes to the \<open>i\<close>-th shape-bearing label and
  that a label without polygons never receives a mask or a box.  The loop of lines 87 to 89
  zips the masks with \<open>labels_\<close>, the list of all labels, and not with the labels whose
  polygons were submitted.  On a frame whose first label has no polygons and whose second label
  has the polygons \<open>P\<close>, with a rasterizer that returns the one mask \<open>m\<close>, the mask and its
  box are stored in the first label, and the second label is left as it was.
\<close>

theorem zip_pairs_masks_with_leading_labels:
  "frames_to_rle_body (ext\<lparr>frame_to_rles := \<lambda>s ps. Inr [m]\<rparr>) shape
      (f\<lparr>labels := Some [a\<lparr>score := None, poly2d := None\<rparr>,
                           b\<lparr>score := None, poly2d := Some P\<rparr>]\<rparr>) =
   ([Rasterize shape [P]],
    Inr (f\<lparr>labels := Some [a\<lparr>score := None, poly2d := None,
                                rle := Some m, box2d := Some (rle_to_box2d ext m)\<rparr>,
                             b\<lparr>score := None, poly2d := Some P\<rparr>]\<rparr>))"
  by (simp add: frames_to_rle_body_def render_order_def has_score_def collect_poly2ds_def
        List.map_filter_simps Let_def)

subsection \<open>Frames without labels\<close>

lemma loop_append:
  "frames_to_rle_loop ext shape (xs @ ys) =
     (case frames_to_rle_loop ext shape xs of
        (t, Inl e) \<Rightarrow> (t, Inl e)
      | (t, Inr xs') \<Rightarrow>
          (case frames_to_rle_loop ext shape ys of
             (ts, Inl e) \<Rightarrow> (t @ ts, Inl e)
           | (ts, Inr ys') \<Rightarrow> (t @ ts, Inr (xs' @ ys'))))"
  by (induction xs) (auto split: prod.splits sum.splits)

lemma body_empty:
  "labels f = None \<or> labels f = Some [] \<Longrightarrow> frames_to_rle_body ext shape f = ([], Inr f)"
  by (auto simp: frames_to_rle_body_def)

text \<open>
  Claim C8.  A frame whose label list is absent or empty is left as it is and causes no
  call of the rasterizer: the body of the loop returns the frame with an empty list of events,
  and within any list of frames such a frame adds no event and stands unchanged at its
  position in the result.
\<close>

theorem frame_without_labels_is_skipped:
  assumes "labels f = None \<or> labels f = Some []"
  shows "frames_to_rle_body ext shape f = ([], Inr f) \<and>
         frames_to_rle_loop ext shape (pre @ f # post) =
           (case frames_to_rle_loop ext shape pre of
              (t, Inl e) \<Rightarrow> (t, Inl e)
            | (t, Inr pre') \<Rightarrow>
                (case frames_to_rle_loop ext shape post of
                   (ts, Inl e) \<Rightarrow> (t @ ts, Inl e)
                 | (ts, Inr post') \<Rightarrow> (t @ ts, Inr (pre' @ f # post'))))"
  using body_empty [OF assms, of ext shape]
  by (simp add: loop_append split: prod.splits sum.splits)

theorem frame_without_labels_is_skipped_witness:
  "labels (example_frames ! 2) = None \<and>
   frames_to_rle_body example_env (1280, 720) (example_frames ! 2) = ([], Inr (example_frames ! 2)) \<and>
   frames_to_rle_loop example_env (1280, 720) [\<lparr>videoName = None, labels = Some []\<rparr>, example_frames ! 2] =
     ([], Inr [\<lparr>videoName = None, labels = Some []\<rparr>, example_frames ! 2])"
  using frame_without_labels_is_skipped [of "example_frames ! 2" example_env "(1280, 720)" "[]" "[]"]
    frame_without_labels_is_skipped [of "\<lparr>videoName = None, labels = Some []\<rparr>" example_env "(1280, 720)" "[]" "[example_frames ! 2]"]
  by (simp add: example_frames_def)

subsection \<open>What a conversion changes\<close>

lemma assign_rles_erase:
  "map (\<lambda>l. l\<lparr>rle := None, box2d := None\<rparr>) (assign_rles box irs ls) =
   map (\<lambda>l. l\<lparr>rle := None, box2d := None\<rparr>) ls"
proof (induction box irs ls rule: assign_rles.induct)
  case (1 box ls)
  then show ?case by simp
next
  case (2 box i r irs ls)
  have "map (\<lambda>l. l\<lparr>rle := None, box2d := None\<rparr>)
          (ls[i := (ls ! i)\<lparr>rle := Some r, box2d := Some (box r)\<rparr>]) =
        map (\<lambda>l. l\<lparr>rle := None, box2d := None\<rparr>) ls"
    by (cases "i < length ls") (simp_all add: map_update list_update_same_conv list_update_beyond)
  with 2 show ?case by simp
qed

lemma same_but_masks_refl: "same_but_masks f f"
  by (simp add: same_but_masks_def)

lemma same_but_masks_assign:
  assumes "labels f = Some ls"
  shows "same_but_masks f (f\<lparr>labels := Some (assign_rles box irs ls)\<rparr>)"
proof -
  have "f\<lparr>labels := Some ls\<rparr> = f"
    using assms by (metis frame.update_convs(2) frame.surjective frame.select_convs(2))
  then show ?thesis
    using assms by (simp add: same_but_masks_def assign_rles_erase)
qed

lemma body_same:
  "frames_to_rle_body ext shape f = (t, Inr f') \<Longrightarrow> same_but_masks f f'"
  by (auto simp: frames_to_rle_body_def Let_def same_but_masks_refl same_but_masks_assign
      split: option.splits if_splits sum.splits)

lemma body_events: "list_all is_Rasterize (fst (frames_to_rle_body ext shape f))"
  by (simp add: frames_to_rle_body_def Let_def split: option.splits sum.splits)

lemma loop_events: "list_all is_Rasterize (fst (frames_to_rle_loop ext shape fs))"
proof (induction fs)
  case Nil
  then show ?case by simp
next
  case (Cons f fs)
  then show ?case
    using body_events [of ext shape f]
    by (auto split: prod.splits sum.splits)
qed

lemma loop_same:
  "frames_to_rle_loop ext shape fs = (t, Inr fs') \<Longrightarrow> list_all2 same_but_masks fs fs'"
proof (induction fs arbitrary: t fs')
  case Nil
  then show ?case by simp
next
  case (Cons f fs)
  then show ?case
    by (auto simp: body_same split: prod.splits sum.splits)
qed

lemma frames_to_rle_success:
  assumes "frames_to_rle ext out_path shape fs = (t, Inr u)"
  shows "\<exists>t0 fs'. t = t0 @ [Save out_path fs'] \<and> list_all is_Rasterize t0 \<and>
           list_all2 same_but_masks fs fs'"
proof -
  from assms obtain t0 fs' where
    l: "frames_to_rle_loop ext shape fs = (t0, Inr fs')" and t: "t = t0 @ [Save out_path fs']"
    by (auto simp: frames_to_rle_def split: prod.splits sum.splits)
  have "list_all is_Rasterize t0"
    using loop_events [of ext shape fs] l by simp
  with t loop_same [OF l] show ?thesis by blast
qed

text \<open>
  Claim C9.  When \<open>frames_to_rle\<close> returns, its events are calls of the rasterizer followed by
  the one \<open>save\<close> to the output path, and the frames saved are the frames given, in the same
  order, each with its labels in their original order and changed in the \<open>rle\<close> and \<open>box2d\<close>
  fields at most; this holds whether or not the labels were sorted by score for rendering.
\<close>

theorem labels_keep_their_order:
  assumes "frames_to_rle ext out_path shape fs = (t, Inr u)"
  shows "\<exists>fs'. t = filter is_Rasterize t @ [Save out_path fs'] \<and> list_all2 same_but_masks fs fs'"
proof -
  from frames_to_rle_success [OF assms] obtain t0 fs' where
    t: "t = t0 @ [Save out_path fs']" and r: "list_all is_Rasterize t0"
    and s: "list_all2 same_but_masks fs fs'"
    by blast
  from r have "filter is_Rasterize t0 = t0"
    by (simp add: list_all_iff)
  with t s show ?thesis by auto
qed

theorem labels_keep_their_order_witness:
  "\<exists>t fs'. frames_to_rle example_env ''out.json'' (1280, 720) example_frames = (t, Inr ()) \<and>
      t = filter is_Rasterize t @ [Save ''out.json'' fs'] \<and>
      list_all2 same_but_masks example_frames fs'"
proof -
  obtain t where h: "frames_to_rle example_env ''out.json'' (1280, 720) example_frames = (t, Inr ())"
    by (simp add: run_defs example_defs)
  from labels_keep_their_order [OF h] h show ?thesis by blast
qed

subsection \<open>The conversion functions\<close>

text \<open>
  Claim C10.  \<open>seg_to_rles\<close> does not depend on its \<open>nproc\<close> argument: for any two worker
  counts and the same frames, output path and configuration it performs the same events and
  returns the same result.
\<close>

theorem seg_to_rles_ignores_nproc: "seg_to_rles ext fs out_path cfg n1 = seg_to_rles ext fs out_path cfg n2"
  by (simp add: seg_to_rles_def)


lemma prepare_paths_unnamed:
  "[] \<notin> set groups \<Longrightarrow> \<exists>g \<in> set groups. videoName (hd g) = None \<Longrightarrow>
     prepare_paths out_base groups =
       Inl (AssertionError ''SegTrack conversion requires videoName in annotations'')"
proof (induction groups)
  case Nil
  then show ?case by simp
next
  case (Cons g groups)
  then obtain f fs where g: "g = f # fs" by (cases g) auto
  show ?case
  proof (cases "videoName f")
    case None
    with g show ?thesis by simp
  next
    case (Some v)
    with g Cons.prems have "\<exists>g \<in> set groups. videoName (hd g) = None" by auto
    moreover from Cons.prems have "[] \<notin> set groups" by auto
    ultimately show ?thesis using Cons.IH g Some by simp
  qed
qed

text \<open>
  Claim C3, amended.  \<open>segtrack_to_rles\<close> tests \<open>videoName is not None\<close> on the first frame
  of every group, so an empty string passes as a sequence identifier.  Let the grouper return
  groups that are non-empty, hold every frame of the input, and hold frames of one
  \<open>videoName\<close> each.  If some frame of the input has no \<open>videoName\<close>, the run ends
  with an \<open>AssertionError\<close> after the creation of the output directory and before any unit
  is dispatched: no call of the rasterizer, no file saved.
\<close>

theorem segtrack_missing_videoName_fails:
  assumes "group_and_sort ext fs = Inr groups"
    and "[] \<notin> set groups"
    and "\<forall>g \<in> set groups. \<forall>f \<in> set g. videoName f = videoName (hd g)"
    and "set fs \<subseteq> \<Union> (set ` set groups)"
    and "f \<in> set fs" and "videoName f = None"
  shows "\<exists>msg. segtrack_to_rles ext fs out_base cfg nproc =
           ([MakeDirs out_base], Inl (AssertionError msg))"
proof -
  from assms(4,5) obtain g where g: "g \<in> set groups" "f \<in> set g" by auto
  with assms(3,6) have "videoName (hd g) = None" by metis
  with g have "\<exists>g \<in> set groups. videoName (hd g) = None" by blast
  from prepare_paths_unnamed [OF assms(2) this, of out_base] assms(1)
  show ?thesis
    by (cases "imageSize cfg") (simp_all add: segtrack_to_rles_def)
qed

theorem segtrack_missing_videoName_fails_witness:
  "\<exists>msg. segtrack_to_rles example_env
      [\<lparr>videoName = Some ''v1'', labels = None\<rparr>, \<lparr>videoName = None, labels = None\<rparr>]
      ''out'' \<lparr>imageSize = Some (1280, 720)\<rparr> 4 =
    ([MakeDirs ''out''], Inl (AssertionError msg))"
proof -
  let ?a = "\<lparr>videoName = Some ''v1'', labels = None\<rparr> :: (nat, nat list, nat, unit) frame"
  let ?b = "\<lparr>videoName = None, labels = None\<rparr> :: (nat, nat list, nat, unit) frame"
  have g: "group_and_sort example_env [?a, ?b] = Inr [[?a], [?b]]"
    by (simp add: example_env_def)
  have "[] \<notin> set [[?a], [?b]]" by simp
  moreover have "\<forall>g \<in> set [[?a], [?b]]. \<forall>f \<in> set g. videoName f = videoName (hd g)" by simp
  moreover have "set [?a, ?b] \<subseteq> \<Union> (set ` set [[?a], [?b]])" by simp
  moreover have "?b \<in> set [?a, ?b]" by simp
  moreover have "videoName ?b = None" by simp
  ultimately show ?thesis
    by (rule segtrack_missing_videoName_fails [OF g])
qed

theorem segtrack_missing_videoName_fails_counterexample:
  "segtrack_to_rles example_env
      [\<lparr>videoName = Some '''', labels = Some [example_label None (Some [7])]\<rparr>]
      ''out'' \<lparr>imageSize = Some (1280, 720)\<rparr> 1 =
    ([MakeDirs ''out'', Rasterize (1280, 720) [[7]],
      Save ''out/.json''
        [\<lparr>videoName = Some '''',
          labels = Some [\<lparr>score = None, poly2d = Some [7], rle = Some [7], box2d = Some 1\<rparr>]\<rparr>]],
     Inr ())"
  by (simp add: run_defs example_defs)

text \<open>
  Claim C4, amended.  With a configuration that lacks \<open>imageSize\<close>, the conversion function of
  every mode fails without a call of the rasterizer and without a file saved.  In the modes
  served by \<open>seg_to_rles\<close> the failure is the assertion on \<open>imageSize\<close> and nothing at all has
  happened before it.  In \<open>seg_track\<close> mode the frames are grouped first: if the grouper
  raises, its exception is the failure; otherwise the output base directory has been created
  by the time the assertion on \<open>imageSize\<close> fails.
\<close>

theorem missing_imageSize_aborts:
  assumes "imageSize cfg = None" and "convert_funcs m = Some convert"
  shows "(m \<noteq> SegTrack \<longrightarrow>
            convert ext fs out cfg nproc =
              ([], Inl (AssertionError ''Seg conversion requires imageSize in config''))) \<and>
         (m = SegTrack \<longrightarrow>
            convert ext fs out cfg nproc =
              (case group_and_sort ext fs of
                 Inl e \<Rightarrow> ([], Inl e)
               | Inr groups \<Rightarrow>
                   ([MakeDirs out], Inl (AssertionError ''Conversion requires imageSize in config.''))))"
  using assms by (cases m) (auto simp: seg_to_rles_def segtrack_to_rles_def split: sum.splits)

theorem missing_imageSize_aborts_witness:
  "(let convert = seg_to_rles in
      convert_funcs SemSeg = Some convert \<and>
      convert example_env example_frames ''out.json'' \<lparr>imageSize = None\<rparr> 4 =
        ([], Inl (AssertionError ''Seg conversion requires imageSize in config''))) \<and>
   (let convert = segtrack_to_rles in
      convert_funcs SegTrack = Some convert \<and>
      convert example_env example_frames ''out'' \<lparr>imageSize = None\<rparr> 4 =
        ([MakeDirs ''out''], Inl (AssertionError ''Conversion requires imageSize in config.'')))"
  using missing_imageSize_aborts [of "\<lparr>imageSize = None\<rparr>" SemSeg seg_to_rles example_env example_frames "''out.json''" 4]
    missing_imageSize_aborts [of "\<lparr>imageSize = None\<rparr>" SegTrack segtrack_to_rles example_env example_frames "''out''" 4]
  by (simp add: example_env_def)

theorem missing_imageSize_aborts_counterexample:
  "segtrack_to_rles example_env example_frames ''out'' \<lparr>imageSize = None\<rparr> 4 =
     ([MakeDirs ''out''], Inl (AssertionError ''Conversion requires imageSize in config.''))"
  by (simp add: run_defs example_defs)





lemma filter_Save_Rasterize: "list_all is_Rasterize t \<Longrightarrow> filter is_Save t = []"
proof (induction t)
  case Nil
  then show ?case by simp
next
  case (Cons ev t)
  then show ?case by (cases ev) auto
qed






subsection \<open>The main function\<close>

text \<open>
  Claim C6.  The configuration of a run is the file named by the \<open>--config\<close> argument if
  there is one; otherwise it is built from the configuration embedded in the loaded dataset if
  there is one; otherwise it is the default configuration named after the mode.
\<close>

theorem resolve_config_precedence:
  "(arg_config a = Some path \<longrightarrow>
      resolve_config ext a ds = ([LoadConfig path], load_bdd100k_config ext path)) \<and>
   (arg_config a = None \<and> config ds = Some c \<longrightarrow>
      resolve_config ext a ds = ([], BDD100KConfig ext c)) \<and>
   (arg_config a = None \<and> config ds = None \<longrightarrow>
      resolve_config ext a ds =
        ([LoadConfig (mode_name (arg_mode a))], load_bdd100k_config ext (mode_name (arg_mode a))))"
  by (simp add: resolve_config_def)

theorem resolve_config_precedence_witness:
  "resolve_config example_env
     \<lparr>arg_input = ''in.json'', arg_output = ''out.json'', arg_mode = SemSeg, arg_nproc = 4,
      arg_config = Some ''cfg.toml''\<rparr>
     \<lparr>frames = example_frames, config = Some \<lparr>imageSize = Some (640, 480)\<rparr>\<rparr> =
     ([LoadConfig ''cfg.toml''], Inr \<lparr>scalabel = \<lparr>imageSize = Some (1280, 720)\<rparr>\<rparr>) \<and>
   resolve_config example_env
     \<lparr>arg_input = ''in.json'', arg_output = ''out.json'', arg_mode = SemSeg, arg_nproc = 4,
      arg_config = None\<rparr>
     \<lparr>frames = example_frames, config = Some \<lparr>imageSize = Some (640, 480)\<rparr>\<rparr> =
     ([], Inr \<lparr>scalabel = \<lparr>imageSize = Some (640, 480)\<rparr>\<rparr>) \<and>
   resolve_config example_env
     \<lparr>arg_input = ''in.json'', arg_output = ''out.json'', arg_mode = SemSeg, arg_nproc = 4,
      arg_config = None\<rparr>
     \<lparr>frames = example_frames, config = None\<rparr> =
     ([LoadConfig ''sem_seg''], Inr \<lparr>scalabel = \<lparr>imageSize = Some (1280, 720)\<rparr>\<rparr>)"
  using resolve_config_precedence [of "\<lparr>arg_input = ''in.json'', arg_output = ''out.json'', arg_mode = SemSeg, arg_nproc = 4,
        arg_config = Some ''cfg.toml''\<rparr>" "''cfg.toml''" example_env
        "\<lparr>frames = example_frames, config = Some \<lparr>imageSize = Some (640, 480)\<rparr>\<rparr>"
        "\<lparr>imageSize = Some (640, 480)\<rparr>"]
    resolve_config_precedence [of "\<lparr>arg_input = ''in.json'', arg_output = ''out.json'', arg_mode = SemSeg, arg_nproc = 4,
        arg_config = None\<rparr>" "''cfg.toml''" example_env
        "\<lparr>frames = example_frames, config = Some \<lparr>imageSize = Some (640, 480)\<rparr>\<rparr>"
        "\<lparr>imageSize = Some (640, 480)\<rparr>"]
    resolve_config_precedence [of "\<lparr>arg_input = ''in.json'', arg_output = ''out.json'', arg_mode = SemSeg, arg_nproc = 4,
        arg_config = None\<rparr>" "''cfg.toml''" example_env
        "\<lparr>frames = example_frames, config = None\<rparr>"
        "\<lparr>imageSize = Some (640, 480)\<rparr>"]
  by (simp add: example_env_def)

lemma Rasterize_untranslated: "list_all is_Rasterize t \<Longrightarrow> filter is_SchemaTranslate t = []"
proof (induction t)
  case Nil
  then show ?case by simp
next
  case (Cons ev t)
  then show ?case by (cases ev) auto
qed

lemma frames_to_rle_untranslated:
  "filter is_SchemaTranslate (fst (frames_to_rle ext out_path shape fs)) = []"
proof (cases "frames_to_rle_loop ext shape fs")
  case (Pair t r)
  with loop_events [of ext shape fs] have "filter is_SchemaTranslate t = []"
    by (simp add: Rasterize_untranslated)
  with Pair show ?thesis
    by (simp add: frames_to_rle_def split: sum.splits)
qed

lemma starmap_untranslated: "filter is_SchemaTranslate (fst (starmap ext units)) = []"
proof (induction units)
  case Nil
  then show ?case by simp
next
  case (Cons u units)
  obtain p s fs where u: "u = (p, s, fs)" by (cases u) auto
  show ?case
    using Cons frames_to_rle_untranslated [of ext p s fs]
    by (auto simp: u split: prod.splits)
qed

lemma seg_to_rles_untranslated:
  "filter is_SchemaTranslate (fst (seg_to_rles ext fs out_path cfg nproc)) = []"
  by (simp add: seg_to_rles_def frames_to_rle_untranslated split: option.splits)

lemma frames_to_rles_untranslated:
  "filter is_SchemaTranslate (fst (frames_to_rles ext nproc out_paths shapes frames_list)) = []"
  by (simp add: frames_to_rles_def starmap_untranslated)

lemma segtrack_to_rles_untranslated:
  "filter is_SchemaTranslate (fst (segtrack_to_rles ext fs out_base cfg nproc)) = []"
proof -
  have "filter is_SchemaTranslate t = []"
    if "frames_to_rles ext nproc out_paths shapes frames_list = (t, r)"
    for out_paths shapes frames_list t r
    using frames_to_rles_untranslated [of ext nproc out_paths shapes frames_list] that by simp
  then show ?thesis
    by (auto simp: segtrack_to_rles_def split: sum.splits option.splits prod.splits)
qed

lemma resolve_config_events:
  "filter is_SchemaTranslate (fst (resolve_config ext a ds)) = [] \<and>
   filter is_Save (fst (resolve_config ext a ds)) = []"
  by (simp add: resolve_config_def split: option.splits)

lemma Rasterize_unsaved: "list_all is_Rasterize t \<Longrightarrow> Save p fs' \<notin> set t"
  by (induction t) auto

lemma frames_to_rle_saves:
  assumes "Save p fs' \<in> set (fst (frames_to_rle ext out_path shape fs))"
  shows "p = out_path \<and> list_all2 same_but_masks fs fs'"
proof (cases "frames_to_rle_loop ext shape fs")
  case (Pair t r)
  have t: "Save p fs' \<notin> set t"
    using loop_events [of ext shape fs] Pair by (simp add: Rasterize_unsaved)
  show ?thesis
  proof (cases r)
    case (Inl e)
    with Pair t assms show ?thesis by (simp add: frames_to_rle_def)
  next
    case (Inr fs'')
    with Pair t assms have "p = out_path" and "fs' = fs''"
      by (simp_all add: frames_to_rle_def)
    with loop_same [of ext shape fs t fs''] Pair Inr show ?thesis by simp
  qed
qed

lemma seg_to_rles_saves:
  assumes "Save p fs' \<in> set (fst (seg_to_rles ext fs out_path cfg nproc))"
  shows "p = out_path \<and> list_all2 same_but_masks fs fs'"
proof (cases "imageSize cfg")
  case None
  with assms show ?thesis by (simp add: seg_to_rles_def)
next
  case (Some shape)
  with assms have "Save p fs' \<in> set (fst (frames_to_rle ext out_path shape fs))"
    by (simp add: seg_to_rles_def)
  then show ?thesis by (rule frames_to_rle_saves)
qed

lemma seg_to_rles_one_file:
  assumes "seg_to_rles ext fs out_path cfg nproc = (t, Inr u)"
  shows "length (filter is_Save t) = 1"
proof -
  from assms obtain shape where "frames_to_rle ext out_path shape fs = (t, Inr u)"
    by (auto simp: seg_to_rles_def split: option.splits)
  from frames_to_rle_success [OF this] obtain t0 fs' where
    "t = t0 @ [Save out_path fs']" "list_all is_Rasterize t0"
    by blast
  then show ?thesis by (simp add: filter_Save_Rasterize)
qed

lemma main_reached:
  assumes "load ext (arg_input a) (arg_nproc a) = Inr ds"
    and "resolve_config ext a ds = (t1, Inr bc)"
    and "arg_mode a \<noteq> LaneMark"
  shows "main ext a =
     (case translate_frames ext (arg_mode a) ds bc of
        (t2, Inl e) \<Rightarrow> (Load (arg_input a) (arg_nproc a) # t1 @ t2, Inl e)
      | (t2, Inr fs) \<Rightarrow>
          (case the (convert_funcs (arg_mode a)) ext fs (arg_output a) (scalabel bc) (arg_nproc a) of
             (t3, r) \<Rightarrow> (Load (arg_input a) (arg_nproc a) # t1 @ t2 @ t3, r)))"
  using assms by (cases "arg_mode a") (simp_all add: main_def split: prod.splits sum.splits)

lemma main_untranslated:
  assumes "load ext (arg_input a) (arg_nproc a) = Inr ds"
    and "resolve_config ext a ds = (t1, Inr bc)"
    and "arg_mode a \<in> {SemSeg, Drivable, PanSeg}"
  shows "main ext a =
     (case seg_to_rles ext (frames ds) (arg_output a) (scalabel bc) (arg_nproc a) of
        (t3, r) \<Rightarrow> (Load (arg_input a) (arg_nproc a) # t1 @ t3, r))"
proof -
  from assms(3) have "arg_mode a \<noteq> LaneMark" by auto
  from main_reached [OF assms(1,2) this] assms(3) show ?thesis
    by (auto simp: translate_frames_def)
qed

lemma main_translated:
  assumes "load ext (arg_input a) (arg_nproc a) = Inr ds"
    and "resolve_config ext a ds = (t1, Inr bc)"
    and "arg_mode a \<in> {InsSeg, SegTrack}"
  shows "main ext a =
     (case bdd100k_to_scalabel ext (frames ds) bc of
        Inl e \<Rightarrow> (Load (arg_input a) (arg_nproc a) # t1 @ [SchemaTranslate (frames ds)], Inl e)
      | Inr fs' \<Rightarrow>
          (case (if arg_mode a = InsSeg then seg_to_rles else segtrack_to_rles)
                  ext fs' (arg_output a) (scalabel bc) (arg_nproc a) of
             (t3, r) \<Rightarrow>
               (Load (arg_input a) (arg_nproc a) # t1 @ SchemaTranslate (frames ds) # t3, r)))"
proof -
  from assms(3) have "arg_mode a \<noteq> LaneMark" by auto
  from main_reached [OF assms(1,2) this] assms(3) show ?thesis
    by (auto simp: translate_frames_def split: sum.splits)
qed

text \<open>
  Claim C7.  Let the dataset be loaded and the configuration resolved.  If the mode is
  \<open>ins_seg\<close> or \<open>seg_track\<close>, the schema translation is called exactly once, on the frames of
  the dataset as loaded, and what it returns is what the conversion function of the mode
  receives (an exception of the translation ends the run).  In every other mode the schema
  translation is not called.  In the modes \<open>sem_seg\<close>, \<open>drivable\<close> and \<open>pan_seg\<close> the run is
  \<open>seg_to_rles\<close> on the frames of the dataset as loaded and on the output path given by the
  caller: every file saved is saved at this path and holds these frames up to the masks
  and boxes of their labels, and a run that succeeds saves exactly one file.
\<close>

theorem translation_only_for_ins_seg_and_seg_track:
  assumes "load ext (arg_input a) (arg_nproc a) = Inr ds"
    and "resolve_config ext a ds = (t1, Inr bc)"
  shows "filter is_SchemaTranslate (fst (main ext a)) =
           (if arg_mode a \<in> {InsSeg, SegTrack} then [SchemaTranslate (frames ds)] else []) \<and>
         (arg_mode a \<in> {InsSeg, SegTrack} \<longrightarrow>
            main ext a =
              (case bdd100k_to_scalabel ext (frames ds) bc of
                 Inl e \<Rightarrow>
                   (Load (arg_input a) (arg_nproc a) # t1 @ [SchemaTranslate (frames ds)], Inl e)
               | Inr fs' \<Rightarrow>
                   (case (if arg_mode a = InsSeg then seg_to_rles else segtrack_to_rles)
                           ext fs' (arg_output a) (scalabel bc) (arg_nproc a) of
                      (t3, r) \<Rightarrow>
                        (Load (arg_input a) (arg_nproc a) # t1 @ SchemaTranslate (frames ds) # t3,
                         r)))) \<and>
         (arg_mode a \<in> {SemSeg, Drivable, PanSeg} \<longrightarrow>
            main ext a =
              (case seg_to_rles ext (frames ds) (arg_output a) (scalabel bc) (arg_nproc a) of
                 (t3, r) \<Rightarrow> (Load (arg_input a) (arg_nproc a) # t1 @ t3, r)) \<and>
            (\<forall>p fs'. Save p fs' \<in> set (fst (main ext a)) \<longrightarrow>
               p = arg_output a \<and> list_all2 same_but_masks (frames ds) fs') \<and>
            (snd (main ext a) = Inr () \<longrightarrow> length (filter is_Save (fst (main ext a))) = 1))"
proof (intro conjI impI)
  have t1: "filter is_SchemaTranslate t1 = []" and t1s: "filter is_Save t1 = []"
    using resolve_config_events [of ext a ds] assms(2) by simp_all
  show "filter is_SchemaTranslate (fst (main ext a)) =
           (if arg_mode a \<in> {InsSeg, SegTrack} then [SchemaTranslate (frames ds)] else [])"
  proof (cases "arg_mode a = LaneMark")
    case True
    then show ?thesis by (simp add: main_def)
  next
    case False
    show ?thesis
    proof (cases "arg_mode a \<in> {InsSeg, SegTrack}")
      case True
      have seg: "filter is_SchemaTranslate t = []"
        if "seg_to_rles ext fs out cfg n = (t, r)" for fs out cfg n t r
        using seg_to_rles_untranslated [of ext fs out cfg n] that by simp
      have segtrack: "filter is_SchemaTranslate t = []"
        if "segtrack_to_rles ext fs out cfg n = (t, r)" for fs out cfg n t r
        using segtrack_to_rles_untranslated [of ext fs out cfg n] that by simp
      from main_translated [OF assms True] True t1 seg segtrack show ?thesis
        by (auto split: sum.splits prod.splits)
    next
      case no: False
      with False have m: "arg_mode a \<in> {SemSeg, Drivable, PanSeg}"
        by (cases "arg_mode a") auto
      have seg: "filter is_SchemaTranslate t = []"
        if "seg_to_rles ext fs out cfg n = (t, r)" for fs out cfg n t r
        using seg_to_rles_untranslated [of ext fs out cfg n] that by simp
      from main_untranslated [OF assms m] no t1 seg show ?thesis
        by (auto split: prod.splits)
    qed
  qed
  {
    assume "arg_mode a \<in> {InsSeg, SegTrack}"
    from main_translated [OF assms this]
    show "main ext a =
              (case bdd100k_to_scalabel ext (frames ds) bc of
                 Inl e \<Rightarrow>
                   (Load (arg_input a) (arg_nproc a) # t1 @ [SchemaTranslate (frames ds)], Inl e)
               | Inr fs' \<Rightarrow>
                   (case (if arg_mode a = InsSeg then seg_to_rles else segtrack_to_rles)
                           ext fs' (arg_output a) (scalabel bc) (arg_nproc a) of
                      (t3, r) \<Rightarrow>
                        (Load (arg_input a) (arg_nproc a) # t1 @ SchemaTranslate (frames ds) # t3,
                         r)))" .
  }
  {
    assume m: "arg_mode a \<in> {SemSeg, Drivable, PanSeg}"
    obtain t3 r where
      s: "seg_to_rles ext (frames ds) (arg_output a) (scalabel bc) (arg_nproc a) = (t3, r)"
      by (cases "seg_to_rles ext (frames ds) (arg_output a) (scalabel bc) (arg_nproc a)") auto
    from main_untranslated [OF assms m]
    show run: "main ext a =
              (case seg_to_rles ext (frames ds) (arg_output a) (scalabel bc) (arg_nproc a) of
                 (t3, r) \<Rightarrow> (Load (arg_input a) (arg_nproc a) # t1 @ t3, r))" .
    with s have mn: "main ext a = (Load (arg_input a) (arg_nproc a) # t1 @ t3, r)"
      by simp
    have t1n: "Save p fs' \<notin> set t1" for p fs'
    proof
      assume "Save p fs' \<in> set t1"
      then have "Save p fs' \<in> set (filter is_Save t1)" by simp
      with t1s show False by simp
    qed
    show "\<forall>p fs'. Save p fs' \<in> set (fst (main ext a)) \<longrightarrow>
               p = arg_output a \<and> list_all2 same_but_masks (frames ds) fs'"
    proof (intro allI impI)
      fix p fs'
      assume "Save p fs' \<in> set (fst (main ext a))"
      with mn t1n have "Save p fs' \<in> set t3" by auto
      with s have
        "Save p fs' \<in> set (fst (seg_to_rles ext (frames ds) (arg_output a) (scalabel bc) (arg_nproc a)))"
        by simp
      then show "p = arg_output a \<and> list_all2 same_but_masks (frames ds) fs'"
        by (rule seg_to_rles_saves)
    qed
    {
      assume "snd (main ext a) = Inr ()"
      with mn have "r = Inr ()" by simp
      with s have "length (filter is_Save t3) = 1"
        by (simp add: seg_to_rles_one_file)
      with mn t1s show "length (filter is_Save (fst (main ext a))) = 1" by simp
    }
  }
qed

theorem translation_only_for_ins_seg_and_seg_track_witness:
  "main example_env
     \<lparr>arg_input = ''in.json'', arg_output = ''out.json'', arg_mode = SemSeg, arg_nproc = 4,
      arg_config = None\<rparr> =
     ([Load ''in.json'' 4, LoadConfig ''sem_seg'',
       Rasterize (1280, 720) [[2], [1]], Rasterize (1280, 720) [[3]],
       Save ''out.json''
         [\<lparr>videoName = Some ''v1'',
           labels = Some [\<lparr>score = Some 0.9, poly2d = Some [1], rle = Some [1], box2d = Some 1\<rparr>,
                          \<lparr>score = Some 0.2, poly2d = Some [2], rle = Some [2], box2d = Some 1\<rparr>]\<rparr>,
          \<lparr>videoName = Some ''v2'',
           labels = Some [\<lparr>score = None, poly2d = None, rle = Some [3], box2d = Some 1\<rparr>,
                          \<lparr>score = Some 0.5, poly2d = Some [3], rle = None, box2d = None\<rparr>]\<rparr>,
          \<lparr>videoName = Some ''v1'', labels = None\<rparr>]],
      Inr ()) \<and>
   length (filter is_Save (fst (main example_env
     \<lparr>arg_input = ''in.json'', arg_output = ''out.json'', arg_mode = SemSeg, arg_nproc = 4,
      arg_config = None\<rparr>))) = 1 \<and>
   main example_env
     \<lparr>arg_input = ''in.json'', arg_output = ''out.json'', arg_mode = InsSeg, arg_nproc = 4,
      arg_config = None\<rparr> =
     ([Load ''in.json'' 4, LoadConfig ''ins_seg'', SchemaTranslate example_frames,
       Rasterize (1280, 720) [[2], [1]], Rasterize (1280, 720) [[3]],
       Save ''out.json''
         [\<lparr>videoName = Some ''v1'',
           labels = Some [\<lparr>score = Some 0.9, poly2d = Some [1], rle = Some [1], box2d = Some 1\<rparr>,
                          \<lparr>score = Some 0.2, poly2d = Some [2], rle = Some [2], box2d = Some 1\<rparr>]\<rparr>,
          \<lparr>videoName = Some ''v2'',
           labels = Some [\<lparr>score = None, poly2d = None, rle = Some [3], box2d = Some 1\<rparr>,
                          \<lparr>score = Some 0.5, poly2d = Some [3], rle = None, box2d = None\<rparr>]\<rparr>]],
      Inr ())"
proof -
  let ?a = "\<lparr>arg_input = ''in.json'', arg_output = ''out.json'', arg_mode = SemSeg, arg_nproc = 4,
       arg_config = None\<rparr>"
  let ?a' = "\<lparr>arg_input = ''in.json'', arg_output = ''out.json'', arg_mode = InsSeg, arg_nproc = 4,
       arg_config = None\<rparr>"
  let ?ds = "\<lparr>frames = example_frames, config = None\<rparr>
               :: (nat \<times> nat, nat, nat list, nat, unit, unit, unit) dataset"
  let ?bc = "\<lparr>scalabel = \<lparr>imageSize = Some (1280 :: nat, 720 :: nat)\<rparr>\<rparr>"
  have l: "load example_env (arg_input ?a) (arg_nproc ?a) = Inr ?ds"
    by (simp add: example_env_def)
  have c: "resolve_config example_env ?a ?ds = ([LoadConfig ''sem_seg''], Inr ?bc)"
    by (simp add: resolve_config_def example_env_def)
  have l': "load example_env (arg_input ?a') (arg_nproc ?a') = Inr ?ds"
    by (simp add: example_env_def)
  have c': "resolve_config example_env ?a' ?ds = ([LoadConfig ''ins_seg''], Inr ?bc)"
    by (simp add: resolve_config_def example_env_def)
  note plain = translation_only_for_ins_seg_and_seg_track [OF l c]
  note translated = translation_only_for_ins_seg_and_seg_track [OF l' c']
  have E: "seg_to_rles example_env example_frames ''out.json'' \<lparr>imageSize = Some (1280, 720)\<rparr> 4 =
     ([Rasterize (1280, 720) [[2], [1]], Rasterize (1280, 720) [[3]],
       Save ''out.json''
         [\<lparr>videoName = Some ''v1'',
           labels = Some [\<lparr>score = Some 0.9, poly2d = Some [1], rle = Some [1], box2d = Some 1\<rparr>,
                          \<lparr>score = Some 0.2, poly2d = Some [2], rle = Some [2], box2d = Some 1\<rparr>]\<rparr>,
          \<lparr>videoName = Some ''v2'',
           labels = Some [\<lparr>score = None, poly2d = None, rle = Some [3], box2d = Some 1\<rparr>,
                          \<lparr>score = Some 0.5, poly2d = Some [3], rle = None, box2d = None\<rparr>]\<rparr>,
          \<lparr>videoName = Some ''v1'', labels = None\<rparr>]],
      Inr ())"
    by (simp add: run_defs example_defs del: not_None_eq)
  have T: "bdd100k_to_scalabel example_env example_frames ?bc =
      Inr [example_frames ! 0, example_frames ! 1]"
    by (simp add: example_defs)
  have E': "seg_to_rles example_env [example_frames ! 0, example_frames ! 1] ''out.json''
      \<lparr>imageSize = Some (1280, 720)\<rparr> 4 =
     ([Rasterize (1280, 720) [[2], [1]], Rasterize (1280, 720) [[3]],
       Save ''out.json''
         [\<lparr>videoName = Some ''v1'',
           labels = Some [\<lparr>score = Some 0.9, poly2d = Some [1], rle = Some [1], box2d = Some 1\<rparr>,
                          \<lparr>score = Some 0.2, poly2d = Some [2], rle = Some [2], box2d = Some 1\<rparr>]\<rparr>,
          \<lparr>videoName = Some ''v2'',
           labels = Some [\<lparr>score = None, poly2d = None, rle = Some [3], box2d = Some 1\<rparr>,
                          \<lparr>score = Some 0.5, poly2d = Some [3], rle = None, box2d = None\<rparr>]\<rparr>]],
      Inr ())"
    by (simp add: run_defs example_defs del: not_None_eq)
  from plain E have A: "main example_env ?a =
     ([Load ''in.json'' 4, LoadConfig ''sem_seg'',
       Rasterize (1280, 720) [[2], [1]], Rasterize (1280, 720) [[3]],
       Save ''out.json''
         [\<lparr>videoName = Some ''v1'',
           labels = Some [\<lparr>score = Some 0.9, poly2d = Some [1], rle = Some [1], box2d = Some 1\<rparr>,
                          \<lparr>score = Some 0.2, poly2d = Some [2], rle = Some [2], box2d = Some 1\<rparr>]\<rparr>,
          \<lparr>videoName = Some ''v2'',
           labels = Some [\<lparr>score = None, poly2d = None, rle = Some [3], box2d = Some 1\<rparr>,
                          \<lparr>score = Some 0.5, poly2d = Some [3], rle = None, box2d = None\<rparr>]\<rparr>,
          \<lparr>videoName = Some ''v1'', labels = None\<rparr>]],
      Inr ())"
    by simp
  then have sn: "snd (main example_env ?a) = Inr ()" by simp
  have m: "arg_mode ?a \<in> {SemSeg, Drivable, PanSeg}" by simp
  from plain m have
    "snd (main example_env ?a) = Inr () \<longrightarrow>
       length (filter is_Save (fst (main example_env ?a))) = 1"
    by blast
  with sn have B: "length (filter is_Save (fst (main example_env ?a))) = 1"
    by blast
  from translated T E' have C: "main example_env ?a' =
     ([Load ''in.json'' 4, LoadConfig ''ins_seg'', SchemaTranslate example_frames,
       Rasterize (1280, 720) [[2], [1]], Rasterize (1280, 720) [[3]],
       Save ''out.json''
         [\<lparr>videoName = Some ''v1'',
           labels = Some [\<lparr>score = Some 0.9, poly2d = Some [1], rle = Some [1], box2d = Some 1\<rparr>,
                          \<lparr>score = Some 0.2, poly2d = Some [2], rle = Some [2], box2d = Some 1\<rparr>]\<rparr>,
          \<lparr>videoName = Some ''v2'',
           labels = Some [\<lparr>score = None, poly2d = None, rle = Some [3], box2d = Some 1\<rparr>,
                          \<lparr>score = Some 0.5, poly2d = Some [3], rle = None, box2d = None\<rparr>]\<rparr>]],
      Inr ())"
    by simp
  from A B C show ?thesis by blast
qed

end
